theory Spec2Isabelle
  imports
    Main
    "HOL-Library.Word"
    "HOL-Library.Char_ord"
    "HOL-Library.List_Lexorder"
    "HOL-Library.Sublist"
begin

section \<open>Values, exceptions and the operators of the host language\<close>

text \<open>
  The predicates of \<^verbatim>\<open>datascience/predicates.py\<close> are one-line lambdas over the
  operators of Python (\<^verbatim>\<open><\<close>, \<^verbatim>\<open><=\<close>, \<^verbatim>\<open>==\<close>, \<^verbatim>\<open>in\<close>, \<^verbatim>\<open>and\<close>, \<^verbatim>\<open>or\<close>,
  \<^verbatim>\<open>not\<close>) and over \<^verbatim>\<open>numpy.nextafter\<close>. The embedding therefore starts with the
  values the predicates are applied to and with the meaning of those operators.

  A value is a Python \<^verbatim>\<open>int\<close> (unbounded), a \<^verbatim>\<open>float\<close> (an IEEE 754 binary64
  number, kept as its 64-bit pattern) or a \<^verbatim>\<open>str\<close>. An exception is a value of type
  \<open>error\<close>; an expression that may raise has type \<open>error + 'a\<close>.
\<close>

datatype error = TypeError | AttributeError

datatype pyval = PInt int | PFloat "64 word" | PStr string

definition bind_err :: "error + 'a \<Rightarrow> ('a \<Rightarrow> error + 'b) \<Rightarrow> error + 'b" where
  "bind_err m k = (case m of Inl e \<Rightarrow> Inl e | Inr v \<Rightarrow> k v)"

subsection \<open>binary64 numbers\<close>

text \<open>
  Bit 63 of the pattern is the sign; the low 63 bits (biased exponent, then the 52-bit
  fraction) are the magnitude. Read as an integer, the magnitude orders the
  non-negative numbers, with infinity at \<open>0x7FF0000000000000\<close> and the NaNs above it.
\<close>

definition fsign :: "64 word \<Rightarrow> bool" where
  "fsign w = (2 ^ 63 \<le> uint w)"

definition fmag :: "64 word \<Rightarrow> int" where
  "fmag w = uint w mod 2 ^ 63"

definition inf_mag :: int where
  "inf_mag = 0x7FF0000000000000"

definition is_nan :: "64 word \<Rightarrow> bool" where
  "is_nan w = (inf_mag < fmag w)"

definition is_inf :: "64 word \<Rightarrow> bool" where
  "is_inf w = (fmag w = inf_mag)"

text \<open>The position of a number that is not a NaN in the order of all such numbers
  (\<open>-0.0\<close> and \<open>0.0\<close> share position 0).\<close>

definition ford :: "64 word \<Rightarrow> int" where
  "ford w = (if fsign w then - fmag w else fmag w)"

text \<open>The exact value of a finite number, multiplied by \<open>2 ^ 1075\<close> (an integer: the
  smallest subnormal is \<open>2 ^ -1074\<close>).\<close>

definition fscaled :: "64 word \<Rightarrow> int" where
  "fscaled w =
     (let e = fmag w div 2 ^ 52; m = fmag w mod 2 ^ 52;
          a = (if e = 0 then 2 * m else (2 ^ 52 + m) * 2 ^ nat e)
      in if fsign w then - a else a)"

subsection \<open>Comparison\<close>

datatype cmp = Lt | Eq | Gt | Unord

definition cmp_int :: "int \<Rightarrow> int \<Rightarrow> cmp" where
  "cmp_int a b = (if a < b then Lt else if a = b then Eq else Gt)"

definition cmp_float :: "64 word \<Rightarrow> 64 word \<Rightarrow> cmp" where
  "cmp_float v w = (if is_nan v \<or> is_nan w then Unord else cmp_int (ford v) (ford w))"

text \<open>Python compares an \<^verbatim>\<open>int\<close> with a \<^verbatim>\<open>float\<close> by their exact values.\<close>

definition cmp_int_float :: "int \<Rightarrow> 64 word \<Rightarrow> cmp" where
  "cmp_int_float n w =
     (if is_nan w then Unord
      else if is_inf w then (if fsign w then Gt else Lt)
      else cmp_int (n * 2 ^ 1075) (fscaled w))"

definition cmp_str :: "string \<Rightarrow> string \<Rightarrow> cmp" where
  "cmp_str s t = (if s < t then Lt else if s = t then Eq else Gt)"

fun flip_cmp :: "cmp \<Rightarrow> cmp" where
  "flip_cmp Lt = Gt"
| "flip_cmp Gt = Lt"
| "flip_cmp c = c"

text \<open>\<open>None\<close>: the two types are not ordered against each other.\<close>

fun py_compare :: "pyval \<Rightarrow> pyval \<Rightarrow> cmp option" where
  "py_compare (PInt a) (PInt b) = Some (cmp_int a b)"
| "py_compare (PInt a) (PFloat w) = Some (cmp_int_float a w)"
| "py_compare (PFloat v) (PInt b) = Some (flip_cmp (cmp_int_float b v))"
| "py_compare (PFloat v) (PFloat w) = Some (cmp_float v w)"
| "py_compare (PStr s) (PStr t) = Some (cmp_str s t)"
| "py_compare _ _ = None"

definition py_lt :: "pyval \<Rightarrow> pyval \<Rightarrow> error + bool" where
  "py_lt a b = (case py_compare a b of None \<Rightarrow> Inl TypeError | Some c \<Rightarrow> Inr (c = Lt))"

definition py_le :: "pyval \<Rightarrow> pyval \<Rightarrow> error + bool" where
  "py_le a b = (case py_compare a b of None \<Rightarrow> Inl TypeError | Some c \<Rightarrow> Inr (c = Lt \<or> c = Eq))"

definition py_gt :: "pyval \<Rightarrow> pyval \<Rightarrow> error + bool" where
  "py_gt a b = (case py_compare a b of None \<Rightarrow> Inl TypeError | Some c \<Rightarrow> Inr (c = Gt))"

definition py_ge :: "pyval \<Rightarrow> pyval \<Rightarrow> error + bool" where
  "py_ge a b = (case py_compare a b of None \<Rightarrow> Inl TypeError | Some c \<Rightarrow> Inr (c = Gt \<or> c = Eq))"

text \<open>\<^verbatim>\<open>==\<close> never raises: values of unrelated types are unequal.\<close>

definition py_eq :: "pyval \<Rightarrow> pyval \<Rightarrow> error + bool" where
  "py_eq a b = (case py_compare a b of None \<Rightarrow> Inr False | Some c \<Rightarrow> Inr (c = Eq))"

text \<open>\<^verbatim>\<open>a in b\<close> on strings is the substring test; anything else raises here.\<close>

fun py_in :: "pyval \<Rightarrow> pyval \<Rightarrow> error + bool" where
  "py_in (PStr a) (PStr b) = Inr (sublist a b)"
| "py_in _ _ = Inl TypeError"

subsection \<open>The lazy connectives\<close>

text \<open>
  \<^verbatim>\<open>a and b\<close> evaluates \<^verbatim>\<open>a\<close>; an exception of \<^verbatim>\<open>a\<close> propagates, a false \<^verbatim>\<open>a\<close> is
  the result, and only a true \<^verbatim>\<open>a\<close> lets \<^verbatim>\<open>b\<close> be evaluated. In the model the
  second argument is the outcome \<^verbatim>\<open>b\<close> would have; not evaluating it means that the
  result does not depend on it.
\<close>

definition py_and :: "error + bool \<Rightarrow> error + bool \<Rightarrow> error + bool" where
  "py_and a b = (case a of Inl e \<Rightarrow> Inl e | Inr v \<Rightarrow> if v then b else Inr False)"

definition py_or :: "error + bool \<Rightarrow> error + bool \<Rightarrow> error + bool" where
  "py_or a b = (case a of Inl e \<Rightarrow> Inl e | Inr v \<Rightarrow> if v then Inr True else b)"

definition py_not :: "error + bool \<Rightarrow> error + bool" where
  "py_not a = (case a of Inl e \<Rightarrow> Inl e | Inr v \<Rightarrow> Inr (\<not> v))"

text \<open>\<^verbatim>\<open>a != b\<close> on two booleans: both operands are evaluated, left to right.\<close>

definition py_ne_bool :: "error + bool \<Rightarrow> error + bool \<Rightarrow> error + bool" where
  "py_ne_bool a b = bind_err a (\<lambda>u. bind_err b (\<lambda>v. Inr (u \<noteq> v)))"

subsection \<open>\<^verbatim>\<open>numpy.nextafter\<close>\<close>

text \<open>
  \<^verbatim>\<open>np.nextafter(x1, x2)\<close> is the next binary64 number after \<^verbatim>\<open>x1\<close> in the direction
  of \<^verbatim>\<open>x2\<close> (C's \<^verbatim>\<open>nextafter\<close>): a NaN if either is one, \<^verbatim>\<open>x2\<close> if they are equal,
  the smallest subnormal of the right sign from a zero, and otherwise the pattern of
  \<^verbatim>\<open>x1\<close> plus one when the step leads away from zero and minus one when it leads
  towards zero.
\<close>

definition quiet_nan :: "64 word" where
  "quiet_nan = 0x7FF8000000000000"

definition nextafter :: "64 word \<Rightarrow> 64 word \<Rightarrow> 64 word" where
  "nextafter x y =
     (if is_nan x \<or> is_nan y then quiet_nan
      else if cmp_float x y = Eq then y
      else if fmag x = 0 then (if cmp_float x y = Lt then 1 else 0x8000000000000001)
      else if (cmp_float x y = Lt) = (\<not> fsign x) then x + 1
      else x - 1)"

text \<open>
  An integer argument is converted to binary64 first, rounding to the nearest number
  and to the even fraction on a tie. \<open>bit_length\<close> is Python's \<^verbatim>\<open>int.bit_length\<close>.
  numpy converts integers of the ranges of its 64-bit integer types; a larger one makes
  the call raise.
\<close>

fun bit_length :: "nat \<Rightarrow> nat" where
  "bit_length n = (if n = 0 then 0 else Suc (bit_length (n div 2)))"

declare bit_length.simps [simp del]

definition round_half_even :: "nat \<Rightarrow> nat \<Rightarrow> nat" where
  "round_half_even a s =
     (let q = a div 2 ^ s; r = a mod 2 ^ s; h = 2 ^ (s - 1)
      in if h < r \<or> (r = h \<and> odd q) then q + 1 else q)"

definition float_of_int :: "int \<Rightarrow> error + 64 word" where
  "float_of_int n =
     (if n < - (2 ^ 63) \<or> 2 ^ 64 \<le> n then Inl TypeError
      else
        let a = nat \<bar>n\<bar>; l = bit_length a;
            q = (if l \<le> 53 then a * 2 ^ (53 - l) else round_half_even a (l - 53));
            mag = (if a = 0 then 0 else (l + 1022) * 2 ^ 52 + (q - 2 ^ 52))
        in Inr (word_of_nat (if n < 0 then 2 ^ 63 + mag else mag)))"

fun as_float :: "pyval \<Rightarrow> error + 64 word" where
  "as_float (PInt n) = float_of_int n"
| "as_float (PFloat w) = Inr w"
| "as_float (PStr s) = Inl TypeError"

definition np_nextafter :: "pyval \<Rightarrow> int \<Rightarrow> error + pyval" where
  "np_nextafter x t =
     bind_err (as_float x) (\<lambda>xf. bind_err (float_of_int t) (\<lambda>tf. Inr (PFloat (nextafter xf tf))))"

section \<open>The combinable wrapper\<close>

text \<open>
  A predicate is a one-argument function to a boolean that may raise. A callable object
  is either an instance of \<^verbatim>\<open>_combinable\<close>, which keeps the wrapped function in its
  attribute \<^verbatim>\<open>f\<close>, or a bare function, which has no such attribute and none of the
  operators.
\<close>

type_synonym pred = "pyval \<Rightarrow> error + bool"

datatype callable = Combinable pred | Bare pred

text \<open>\<^verbatim>\<open>__call__\<close>: \<^verbatim>\<open>return self.f(x)\<close>; a bare function is simply applied.\<close>

fun call :: "callable \<Rightarrow> pyval \<Rightarrow> error + bool" where
  "call (Combinable f) x = f x"
| "call (Bare g) x = g x"

text \<open>The attribute access \<^verbatim>\<open>other.f\<close>.\<close>

fun attr_f :: "callable \<Rightarrow> error + pred" where
  "attr_f (Combinable f) = Inr f"
| "attr_f (Bare g) = Inl AttributeError"

text \<open>
  \<^verbatim>\<open>__and__\<close>: \<^verbatim>\<open>_combinable(lambda x: self.f(x) and other.f(x))\<close>. The attribute of
  \<^verbatim>\<open>other\<close> is read inside the lambda, when the new predicate is invoked and the left
  operand was true. A bare function on the left has no \<^verbatim>\<open>__and__\<close>: the operator
  raises.
\<close>

fun comb_and :: "callable \<Rightarrow> callable \<Rightarrow> error + callable" where
  "comb_and (Combinable f) other =
     Inr (Combinable (\<lambda>x. py_and (f x) (bind_err (attr_f other) (\<lambda>g. g x))))"
| "comb_and (Bare g) other = Inl TypeError"

fun comb_or :: "callable \<Rightarrow> callable \<Rightarrow> error + callable" where
  "comb_or (Combinable f) other =
     Inr (Combinable (\<lambda>x. py_or (f x) (bind_err (attr_f other) (\<lambda>g. g x))))"
| "comb_or (Bare g) other = Inl TypeError"

fun comb_neg :: "callable \<Rightarrow> error + callable" where
  "comb_neg (Combinable f) = Inr (Combinable (\<lambda>x. py_not (f x)))"
| "comb_neg (Bare g) = Inl TypeError"

text \<open>\<^verbatim>\<open>__xor__\<close>: \<^verbatim>\<open>return (self & -other) | (-self & other)\<close>, evaluated left to
  right.\<close>

fun comb_xor :: "callable \<Rightarrow> callable \<Rightarrow> error + callable" where
  "comb_xor (Combinable f) other =
     bind_err (comb_neg other) (\<lambda>no.
     bind_err (comb_and (Combinable f) no) (\<lambda>l.
     bind_err (comb_neg (Combinable f)) (\<lambda>ns.
     bind_err (comb_and ns other) (\<lambda>r.
     comb_or l r))))"
| "comb_xor (Bare g) other = Inl TypeError"

text \<open>Calling the value of an expression that may itself have raised.\<close>

definition invoke :: "error + callable \<Rightarrow> pyval \<Rightarrow> error + bool" where
  "invoke m x = bind_err m (\<lambda>p. call p x)"

section \<open>The near-equality policy and the registry \<^verbatim>\<open>are\<close>\<close>

text \<open>\<^verbatim>\<open>isinstance(x, numbers.Real)\<close>.\<close>

fun is_real :: "pyval \<Rightarrow> bool" where
  "is_real (PInt n) = True"
| "is_real (PFloat w) = True"
| "is_real (PStr s) = False"

text \<open>
  \<^verbatim>\<open>_equal_or_float_equal\<close>:
  \<^verbatim>\<open>x == y or np.nextafter(x, 1) == y or np.nextafter(x, 0) == y\<close> for a real \<^verbatim>\<open>x\<close>,
  \<^verbatim>\<open>x == y\<close> otherwise.
\<close>

definition equal_or_float_equal :: "pyval \<Rightarrow> pyval \<Rightarrow> error + bool" where
  "equal_or_float_equal x y =
     (if is_real x then
        py_or (py_eq x y)
          (py_or (bind_err (np_nextafter x 1) (\<lambda>u. py_eq u y))
                 (bind_err (np_nextafter x 0) (\<lambda>d. py_eq d y)))
      else py_eq x y)"

definition equal_to :: "pyval \<Rightarrow> callable" where
  "equal_to y = Combinable (\<lambda>x. equal_or_float_equal x y)"

definition above :: "pyval \<Rightarrow> callable" where
  "above y = Combinable (\<lambda>x. py_gt x y)"

definition below :: "pyval \<Rightarrow> callable" where
  "below y = Combinable (\<lambda>x. py_lt x y)"

definition above_or_equal_to :: "pyval \<Rightarrow> callable" where
  "above_or_equal_to y = Combinable (\<lambda>x. py_or (py_ge x y) (equal_or_float_equal x y))"

definition below_or_equal_to :: "pyval \<Rightarrow> callable" where
  "below_or_equal_to y = Combinable (\<lambda>x. py_or (py_le x y) (equal_or_float_equal x y))"

text \<open>\<^verbatim>\<open>y < x < z\<close> is \<^verbatim>\<open>y < x and x < z\<close>.\<close>

definition strictly_between :: "pyval \<Rightarrow> pyval \<Rightarrow> callable" where
  "strictly_between y z = Combinable (\<lambda>x. py_and (py_lt y x) (py_lt x z))"

definition between :: "pyval \<Rightarrow> pyval \<Rightarrow> callable" where
  "between y z =
     Combinable (\<lambda>x. py_or (py_and (py_le y x) (py_lt x z)) (equal_or_float_equal x y))"

definition between_or_equal_to :: "pyval \<Rightarrow> pyval \<Rightarrow> callable" where
  "between_or_equal_to y z =
     Combinable (\<lambda>x. py_or (py_and (py_le y x) (py_le x z))
                      (py_or (equal_or_float_equal x y) (equal_or_float_equal x z)))"

definition containing :: "pyval \<Rightarrow> callable" where
  "containing substring = Combinable (\<lambda>x. py_in substring x)"

definition contained_in :: "pyval \<Rightarrow> callable" where
  "contained_in superstring = Combinable (\<lambda>x. py_in x superstring)"

subsection \<open>Negations and aliases\<close>

text \<open>\<^verbatim>\<open>_not(f)\<close> is \<^verbatim>\<open>lambda *args: -f(*args)\<close>; \<open>args\<close> is the operand, or the pair
  of operands of a two-operand factory.\<close>

definition not_of :: "('a \<Rightarrow> callable) \<Rightarrow> 'a \<Rightarrow> error + callable" where
  "not_of f args = comb_neg (f args)"

definition not_equal_to :: "pyval \<Rightarrow> error + callable" where
  "not_equal_to = not_of equal_to"

definition not_above :: "pyval \<Rightarrow> callable" where
  "not_above = below_or_equal_to"

definition not_below :: "pyval \<Rightarrow> callable" where
  "not_below = above_or_equal_to"

definition not_below_or_equal_to :: "pyval \<Rightarrow> callable" where
  "not_below_or_equal_to = above"

definition not_above_or_equal_to :: "pyval \<Rightarrow> callable" where
  "not_above_or_equal_to = below"

definition not_strictly_between :: "pyval \<times> pyval \<Rightarrow> error + callable" where
  "not_strictly_between = not_of (\<lambda>(y, z). strictly_between y z)"

definition not_between :: "pyval \<times> pyval \<Rightarrow> error + callable" where
  "not_between = not_of (\<lambda>(y, z). between y z)"

definition not_between_or_equal_to :: "pyval \<times> pyval \<Rightarrow> error + callable" where
  "not_between_or_equal_to = not_of (\<lambda>(y, z). between_or_equal_to y z)"

definition not_containing :: "pyval \<Rightarrow> error + callable" where
  "not_containing = not_of containing"

definition not_contained_in :: "pyval \<Rightarrow> error + callable" where
  "not_contained_in = not_of contained_in"


subsection \<open>The column of the module's examples\<close>

text \<open>The docstring of \<^verbatim>\<open>are\<close> filters a table whose column \<^verbatim>\<open>Sizes\<close> is
  \<^verbatim>\<open>['S', 'M', 'L', 'XL']\<close>; a row is selected when the predicate is true of its value.\<close>

definition sizes :: "pyval list" where
  "sizes = [PStr ''S'', PStr ''M'', PStr ''L'', PStr ''XL'']"

section \<open>Notions used to state the properties\<close>

text \<open>Two values are comparable when the ordering operators accept them: two numbers, or
  two strings.\<close>

definition comparable :: "pyval \<Rightarrow> pyval \<Rightarrow> bool" where
  "comparable a b = (py_compare a b \<noteq> None)"

text \<open>
  The binary64 numbers immediately above and immediately below a number: one step in the
  order of all numbers, whatever the sign (from either zero the step leads to the
  smallest subnormal; the infinities and the NaNs stay where they are).
\<close>

definition next_up :: "64 word \<Rightarrow> 64 word" where
  "next_up w =
     (if is_nan w then w
      else if fmag w = 0 then 1
      else if fsign w then w - 1
      else if is_inf w then w
      else w + 1)"

definition next_down :: "64 word \<Rightarrow> 64 word" where
  "next_down w =
     (if is_nan w then w
      else if fmag w = 0 then 0x8000000000000001
      else if \<not> fsign w then w - 1
      else if is_inf w then w
      else w + 1)"

text \<open>
  A real \<open>x\<close> is within one unit in the last place of \<open>y\<close> when \<open>x\<close>, \<open>x\<close> as a
  binary64 number, or one of the two neighbours of that number equals \<open>y\<close>. A value
  that is not a real number is within one unit only of its equals.
\<close>

definition within_one_ulp :: "pyval \<Rightarrow> pyval \<Rightarrow> error + bool" where
  "within_one_ulp x y =
     (if is_real x then
        bind_err (as_float x) (\<lambda>w.
          Inr (py_eq x y = Inr True \<or> py_eq (PFloat w) y = Inr True
               \<or> py_eq (PFloat (next_up w)) y = Inr True
               \<or> py_eq (PFloat (next_down w)) y = Inr True))
      else py_eq x y)"

text \<open>
  The predicates a caller obtains from the registry, or from combining such predicates
  with the operators of the wrapper.
\<close>

inductive from_registry :: "callable \<Rightarrow> bool" where
  reg_equal_to: "from_registry (equal_to y)"
| reg_above: "from_registry (above y)"
| reg_below: "from_registry (below y)"
| reg_above_or_equal_to: "from_registry (above_or_equal_to y)"
| reg_below_or_equal_to: "from_registry (below_or_equal_to y)"
| reg_strictly_between: "from_registry (strictly_between y z)"
| reg_between: "from_registry (between y z)"
| reg_between_or_equal_to: "from_registry (between_or_equal_to y z)"
| reg_containing: "from_registry (containing y)"
| reg_contained_in: "from_registry (contained_in y)"
| reg_neg: "from_registry p \<Longrightarrow> comb_neg p = Inr r \<Longrightarrow> from_registry r"
| reg_and: "from_registry p \<Longrightarrow> from_registry q \<Longrightarrow> comb_and p q = Inr r \<Longrightarrow> from_registry r"
| reg_or: "from_registry p \<Longrightarrow> from_registry q \<Longrightarrow> comb_or p q = Inr r \<Longrightarrow> from_registry r"
| reg_xor: "from_registry p \<Longrightarrow> from_registry q \<Longrightarrow> comb_xor p q = Inr r \<Longrightarrow> from_registry r"

text \<open>A wrapper whose invocation never fails on a missing attribute.\<close>

definition attr_safe :: "callable \<Rightarrow> bool" where
  "attr_safe p = (case p of Combinable f \<Rightarrow> (\<forall>x. f x \<noteq> Inl AttributeError) | Bare g \<Rightarrow> False)"

section \<open>Basic facts about the operators\<close>

lemma invoke_Inr: "invoke (Inr p) x = call p x"
  by (simp add: invoke_def bind_err_def)

lemma flip_cmp_int: "cmp_int b a = flip_cmp (cmp_int a b)"
  by (simp add: cmp_int_def)

lemma flip_cmp_float: "cmp_float w v = flip_cmp (cmp_float v w)"
  by (auto simp add: cmp_float_def cmp_int_def)

lemma flip_cmp_str: "cmp_str t s = flip_cmp (cmp_str s t)"
  by (auto simp add: cmp_str_def)

lemma flip_flip: "flip_cmp (flip_cmp c) = c"
  by (cases c) simp_all

lemma py_compare_sym: "py_compare b a = map_option flip_cmp (py_compare a b)"
  by (cases a; cases b)
     (simp_all add: flip_cmp_int [symmetric] flip_cmp_float [symmetric] flip_cmp_str [symmetric] flip_flip)

lemma py_compare_Eq_sym: "py_compare a b = Some Eq \<Longrightarrow> py_compare b a = Some Eq"
proof -
  assume eq: "py_compare a b = Some Eq"
  have "py_compare b a = map_option flip_cmp (py_compare a b)"
    by (rule py_compare_sym)
  with eq show ?thesis by simp
qed

lemma py_eq_True: "py_eq a b = Inr True \<longleftrightarrow> py_compare a b = Some Eq"
  by (simp add: py_eq_def split: option.splits)

lemma py_lt_True: "py_lt a b = Inr True \<longleftrightarrow> py_compare a b = Some Lt"
  by (simp add: py_lt_def split: option.splits)

section \<open>Facts about binary64 numbers and \<^verbatim>\<open>nextafter\<close>\<close>

lemma fmag_nonneg: "0 \<le> fmag w"
  by (simp add: fmag_def)


text \<open>\<open>nextafter x t\<close> is \<open>t\<close> itself when \<open>x\<close> equals it, the number above \<open>x\<close>
  when \<open>t\<close> is greater, and the number below \<open>x\<close> when \<open>t\<close> is smaller.\<close>

lemma nextafter_direction:
  assumes "\<not> is_nan x" "\<not> is_nan t"
  shows "nextafter x t =
           (if cmp_float x t = Eq then t
            else if cmp_float x t = Lt then next_up x else next_down x)"
  using assms fmag_nonneg [of x] fmag_nonneg [of t]
  by (auto simp add: nextafter_def next_up_def next_down_def cmp_float_def cmp_int_def
        ford_def is_nan_def is_inf_def split: if_splits)



lemma fscaled_zero: "fmag w = 0 \<Longrightarrow> fscaled w = 0"
  by (simp add: fscaled_def)








lemma float_of_int_1: "float_of_int 1 = Inr 0x3FF0000000000000"
  by (simp add: float_of_int_def bit_length.simps Let_def)

lemma float_of_int_0: "float_of_int 0 = Inr 0"
  by (simp add: float_of_int_def bit_length.simps Let_def)


lemma not_nan_one: "\<not> is_nan 0x3FF0000000000000"
  by (simp add: is_nan_def fmag_def inf_mag_def)

lemma not_nan_zero: "\<not> is_nan 0"
  by (simp add: is_nan_def fmag_def inf_mag_def)

lemma py_eq_cases: "py_eq a b = Inr True \<or> py_eq a b = Inr False"
  by (simp add: py_eq_def split: option.splits)




text \<open>\<open>next_up\<close> and \<open>next_down\<close> move by exactly one position in the order.\<close>

lemma uint_bound64: "0 \<le> uint (w :: 64 word) \<and> uint w < 2 ^ 64"
  using uint_lt2p [of w] by simp

lemma fmag_pos_sign: "fsign w \<Longrightarrow> fmag w = uint w - 2 ^ 63"
proof -
  assume "fsign w"
  then have "2 ^ 63 \<le> uint w" by (simp add: fsign_def)
  moreover have "uint w < 2 ^ 64" using uint_bound64 [of w] by simp
  ultimately have "(uint w - 2 ^ 63) mod 2 ^ 63 = uint w - 2 ^ 63"
    by (intro mod_pos_pos_trivial) simp_all
  moreover have "uint w mod 2 ^ 63 = (uint w - 2 ^ 63) mod 2 ^ 63"
    by (simp add: mod_diff_right_eq [symmetric, of "uint w" "2 ^ 63" "2 ^ 63"])
  ultimately show ?thesis by (simp add: fmag_def)
qed

lemma fmag_no_sign: "\<not> fsign w \<Longrightarrow> fmag w = uint w"
  by (simp add: fsign_def fmag_def)

lemma uint_succ: "uint (w :: 64 word) + 1 < 2 ^ 64 \<Longrightarrow> uint (w + 1) = uint w + 1"
  by (simp add: uint_word_ariths)

lemma uint_pred: "0 < uint (w :: 64 word) \<Longrightarrow> uint (w - 1) = uint w - 1"
  using uint_bound64 [of w] by (simp add: uint_word_ariths)

lemma ford_next_up:
  assumes "\<not> is_nan w" and "\<not> (is_inf w \<and> \<not> fsign w)"
  shows "ford (next_up w) = ford w + 1 \<and> \<not> is_nan (next_up w)"
proof (cases "fmag w = 0")
  case True
  then show ?thesis using assms
    by (simp add: next_up_def ford_def fsign_def fmag_def is_nan_def inf_mag_def)
next
  case False
  note nz = False
  show ?thesis
  proof (cases "fsign w")
    case True
    from fmag_pos_sign [OF True] nz fmag_nonneg [of w] have u: "2 ^ 63 < uint w" by simp
    then have p: "uint (w - 1) = uint w - 1" by (simp add: uint_pred)
    with u have s: "fsign (w - 1)" by (simp add: fsign_def)
    from fmag_pos_sign [OF s] fmag_pos_sign [OF True] p have "fmag (w - 1) = fmag w - 1" by simp
    then show ?thesis using assms True nz s
      by (simp add: next_up_def ford_def is_nan_def)
  next
    case False
    from assms False have lt: "fmag w < inf_mag" by (simp add: is_nan_def is_inf_def)
    with fmag_no_sign [OF False] have u: "uint w + 1 < 2 ^ 63" by (simp add: inf_mag_def)
    then have p: "uint (w + 1) = uint w + 1" by (simp add: uint_succ)
    with u have s: "\<not> fsign (w + 1)" by (simp add: fsign_def)
    from fmag_no_sign [OF s] fmag_no_sign [OF False] p have "fmag (w + 1) = fmag w + 1" by simp
    then show ?thesis using assms False nz s lt
      by (simp add: next_up_def ford_def is_nan_def is_inf_def)
  qed
qed

lemma ford_next_down:
  assumes "\<not> is_nan w" and "\<not> (is_inf w \<and> fsign w)"
  shows "ford (next_down w) = ford w - 1 \<and> \<not> is_nan (next_down w)"
proof (cases "fmag w = 0")
  case True
  then show ?thesis using assms
    by (simp add: next_down_def ford_def fsign_def fmag_def is_nan_def inf_mag_def)
next
  case False
  note nz = False
  show ?thesis
  proof (cases "fsign w")
    case False
    from fmag_no_sign [OF False] nz uint_bound64 [of w] have u: "0 < uint w" by arith
    then have p: "uint (w - 1) = uint w - 1" by (simp add: uint_pred)
    from False have "uint w < 2 ^ 63" by (simp add: fsign_def)
    with p have s: "\<not> fsign (w - 1)" by (simp add: fsign_def)
    from fmag_no_sign [OF s] fmag_no_sign [OF False] p have "fmag (w - 1) = fmag w - 1" by simp
    then show ?thesis using assms False nz s
      by (simp add: next_down_def ford_def is_nan_def)
  next
    case True
    from assms True have lt: "fmag w < inf_mag" by (simp add: is_nan_def is_inf_def)
    with fmag_pos_sign [OF True] have u: "uint w + 1 < 2 ^ 64" by (simp add: inf_mag_def)
    then have p: "uint (w + 1) = uint w + 1" by (simp add: uint_succ)
    from True have "2 ^ 63 \<le> uint w" by (simp add: fsign_def)
    with p have s: "fsign (w + 1)" by (simp add: fsign_def)
    from fmag_pos_sign [OF s] fmag_pos_sign [OF True] p have "fmag (w + 1) = fmag w + 1" by simp
    then show ?thesis using assms True nz s lt
      by (simp add: next_down_def ford_def is_nan_def is_inf_def)
  qed
qed

text \<open>
  For every binary64 number \<open>x\<close> greater than 1, both \<^verbatim>\<open>np.nextafter(x, 1)\<close> and
  \<^verbatim>\<open>np.nextafter(x, 0)\<close> are the number below \<open>x\<close>. The number above a finite such
  \<open>x\<close> is therefore not near-equal to \<open>x\<close>, and \<open>x\<close> is not at or above it.
\<close>

lemma ford_one: "ford 0x3FF0000000000000 = 0x3FF0000000000000"
  by (simp add: ford_def fsign_def fmag_def)

lemma ford_zero: "ford 0 = 0"
  by (simp add: ford_def fsign_def fmag_def)

lemma nextafter_above:
  assumes "\<not> is_nan x" "\<not> is_nan t" "ford t < ford x" "0 \<le> ford t"
  shows "nextafter x t = next_down x"
  using assms fmag_nonneg [of x]
  by (auto simp add: nextafter_def next_down_def cmp_float_def cmp_int_def ford_def split: if_splits)

lemma np_nextafter_above_one:
  assumes "\<not> is_nan x" "ford 0x3FF0000000000000 < ford x"
  shows "np_nextafter (PFloat x) 1 = Inr (PFloat (next_down x))"
    and "np_nextafter (PFloat x) 0 = Inr (PFloat (next_down x))"
proof -
  from assms(2) have "ford 0 < ford x" by (simp add: ford_one ford_zero)
  with assms show "np_nextafter (PFloat x) 1 = Inr (PFloat (next_down x))"
    and "np_nextafter (PFloat x) 0 = Inr (PFloat (next_down x))"
    by (simp_all add: np_nextafter_def bind_err_def float_of_int_1 float_of_int_0
          nextafter_above not_nan_one not_nan_zero ford_one ford_zero)
qed

lemma equal_or_float_equal_above_one:
  assumes "\<not> is_nan x" "\<not> is_inf x" "ford 0x3FF0000000000000 < ford x"
  shows "equal_or_float_equal (PFloat x) (PFloat (next_up x)) = Inr False"
proof -
  from assms(3) have pos: "0 < ford x" by (simp add: ford_one)
  then have nosign: "\<not> fsign x" using fmag_nonneg [of x] by (auto simp add: ford_def split: if_splits)
  from ford_next_up [of x] assms have up: "ford (next_up x) = ford x + 1" "\<not> is_nan (next_up x)"
    by simp_all
  from ford_next_down [of x] assms nosign
  have down: "ford (next_down x) = ford x - 1" "\<not> is_nan (next_down x)"
    by simp_all
  have "py_eq (PFloat x) (PFloat (next_up x)) = Inr False"
    using assms(1) up by (simp add: py_eq_def cmp_float_def cmp_int_def)
  moreover have "py_eq (PFloat (next_down x)) (PFloat (next_up x)) = Inr False"
    using up down by (simp add: py_eq_def cmp_float_def cmp_int_def)
  ultimately show ?thesis
    by (simp add: equal_or_float_equal_def py_or_def bind_err_def
          np_nextafter_above_one [OF assms(1,3)])
qed

lemma above_or_equal_to_above_one:
  assumes "\<not> is_nan x" "\<not> is_inf x" "ford 0x3FF0000000000000 < ford x"
  shows "call (above_or_equal_to (PFloat (next_up x))) (PFloat x) = Inr False"
proof -
  from ford_next_up [of x] assms have up: "ford (next_up x) = ford x + 1" "\<not> is_nan (next_up x)"
    by simp_all
  have "py_ge (PFloat x) (PFloat (next_up x)) = Inr False"
    using assms(1) up by (simp add: py_ge_def cmp_float_def cmp_int_def)
  then show ?thesis
    by (simp add: above_or_equal_to_def py_or_def equal_or_float_equal_above_one [OF assms])
qed

text \<open>
  What the policy computes: exact equality for a value that is not a real number; for a
  binary64 number, equality of it or of one of its neighbours towards 1 and towards 0.
  For a number strictly between 0 and 1 these are the numbers above and below it, and
  the policy is the test of \<open>within_one_ulp\<close>.
\<close>

lemma equal_or_float_equal_not_real: "\<not> is_real x \<Longrightarrow> equal_or_float_equal x y = py_eq x y"
  by (simp add: equal_or_float_equal_def)

lemma equal_or_float_equal_float:
  "equal_or_float_equal (PFloat w) y =
     Inr (py_eq (PFloat w) y = Inr True
          \<or> py_eq (PFloat (nextafter w 0x3FF0000000000000)) y = Inr True
          \<or> py_eq (PFloat (nextafter w 0)) y = Inr True)"
  using py_eq_cases [of "PFloat w" y] py_eq_cases [of "PFloat (nextafter w 0x3FF0000000000000)" y]
    py_eq_cases [of "PFloat (nextafter w 0)" y]
  by (auto simp add: equal_or_float_equal_def np_nextafter_def bind_err_def float_of_int_1
        float_of_int_0 py_or_def)

lemma equal_or_float_equal_unit_interval:
  assumes "\<not> is_nan w" "0 < ford w" "ford w < ford 0x3FF0000000000000"
  shows "equal_or_float_equal (PFloat w) y = within_one_ulp (PFloat w) y"
proof -
  have "cmp_float w 0x3FF0000000000000 = Lt" "cmp_float w 0 = Gt"
    using assms by (simp_all add: cmp_float_def cmp_int_def not_nan_one not_nan_zero ford_zero)
  then have "nextafter w 0x3FF0000000000000 = next_up w" "nextafter w 0 = next_down w"
    using assms(1) by (simp_all add: nextafter_direction not_nan_one not_nan_zero)
  then show ?thesis
    by (simp add: equal_or_float_equal_float within_one_ulp_def bind_err_def)
qed

section \<open>No registry predicate fails on a missing attribute\<close>

lemma cmp_safe:
  "py_lt a b \<noteq> Inl AttributeError" "py_le a b \<noteq> Inl AttributeError"
  "py_gt a b \<noteq> Inl AttributeError" "py_ge a b \<noteq> Inl AttributeError"
  "py_eq a b \<noteq> Inl AttributeError"
  by (simp_all add: py_lt_def py_le_def py_gt_def py_ge_def py_eq_def split: option.splits)

lemma py_in_safe: "py_in a b \<noteq> Inl AttributeError"
  by (cases a; cases b) simp_all

lemma float_of_int_safe: "float_of_int n \<noteq> Inl AttributeError"
  by (simp add: float_of_int_def Let_def)

lemma as_float_safe: "as_float x \<noteq> Inl AttributeError"
  by (cases x) (simp_all add: float_of_int_safe)

lemma bind_err_safe:
  "m \<noteq> Inl AttributeError \<Longrightarrow> (\<And>v. k v \<noteq> Inl AttributeError) \<Longrightarrow> bind_err m k \<noteq> Inl AttributeError"
  by (cases m) (simp_all add: bind_err_def)

lemma np_nextafter_eq_safe: "bind_err (np_nextafter x t) (\<lambda>u. py_eq u y) \<noteq> Inl AttributeError"
  unfolding np_nextafter_def
  by (intro bind_err_safe as_float_safe float_of_int_safe cmp_safe) simp

lemma py_or_safe: "a \<noteq> Inl AttributeError \<Longrightarrow> b \<noteq> Inl AttributeError \<Longrightarrow> py_or a b \<noteq> Inl AttributeError"
  by (cases a) (simp_all add: py_or_def)

lemma py_and_safe: "a \<noteq> Inl AttributeError \<Longrightarrow> b \<noteq> Inl AttributeError \<Longrightarrow> py_and a b \<noteq> Inl AttributeError"
  by (cases a) (simp_all add: py_and_def)

lemma py_not_safe: "a \<noteq> Inl AttributeError \<Longrightarrow> py_not a \<noteq> Inl AttributeError"
  by (cases a) (simp_all add: py_not_def)

lemma equal_or_float_equal_safe: "equal_or_float_equal x y \<noteq> Inl AttributeError"
  by (simp add: equal_or_float_equal_def py_or_safe cmp_safe np_nextafter_eq_safe)

lemma attr_safe_Combinable: "attr_safe (Combinable f) \<longleftrightarrow> (\<forall>x. f x \<noteq> Inl AttributeError)"
  by (simp add: attr_safe_def)

lemma attr_safe_neg: "attr_safe p \<Longrightarrow> comb_neg p = Inr r \<Longrightarrow> attr_safe r"
  by (cases p) (auto simp add: attr_safe_def py_not_safe)

lemma attr_safe_and: "attr_safe p \<Longrightarrow> attr_safe q \<Longrightarrow> comb_and p q = Inr r \<Longrightarrow> attr_safe r"
  by (cases p; cases q) (auto simp add: attr_safe_def bind_err_def py_and_safe)

lemma attr_safe_or: "attr_safe p \<Longrightarrow> attr_safe q \<Longrightarrow> comb_or p q = Inr r \<Longrightarrow> attr_safe r"
  by (cases p; cases q) (auto simp add: attr_safe_def bind_err_def py_or_safe)

lemma attr_safe_xor:
  assumes "attr_safe p" "attr_safe q" "comb_xor p q = Inr r"
  shows "attr_safe r"
proof -
  from assms(1) obtain f where p: "p = Combinable f" by (cases p) (simp_all add: attr_safe_def)
  from assms(2) obtain g where q: "q = Combinable g" by (cases q) (simp_all add: attr_safe_def)
  from assms(1) p have f: "\<And>x. f x \<noteq> Inl AttributeError" by (simp add: attr_safe_def)
  from assms(2) q have g: "\<And>x. g x \<noteq> Inl AttributeError" by (simp add: attr_safe_def)
  from assms(3) have "r = Combinable (\<lambda>x. py_or (py_and (f x) (py_not (g x))) (py_and (py_not (f x)) (g x)))"
    by (simp add: p q bind_err_def)
  then show ?thesis
    by (simp add: attr_safe_def py_or_safe py_and_safe py_not_safe f g)
qed

lemma from_registry_attr_safe: "from_registry p \<Longrightarrow> attr_safe p"
proof (induction rule: from_registry.induct)
  case (reg_neg p r) then show ?case by (blast intro: attr_safe_neg)
next
  case (reg_and p q r) then show ?case by (blast intro: attr_safe_and)
next
  case (reg_or p q r) then show ?case by (blast intro: attr_safe_or)
next
  case (reg_xor p q r) then show ?case by (blast intro: attr_safe_xor)
qed (simp_all add: attr_safe_def equal_to_def above_def below_def above_or_equal_to_def
       below_or_equal_to_def strictly_between_def between_def between_or_equal_to_def
       containing_def contained_in_def
       py_or_safe py_and_safe cmp_safe py_in_safe equal_or_float_equal_safe)

text \<open>The negated entries of the registry are predicates of this kind.\<close>

lemma negated_entries_from_registry:
  "\<exists>r. not_equal_to y = Inr r \<and> from_registry r"
  "\<exists>r. not_strictly_between (y, z) = Inr r \<and> from_registry r"
  "\<exists>r. not_between (y, z) = Inr r \<and> from_registry r"
  "\<exists>r. not_between_or_equal_to (y, z) = Inr r \<and> from_registry r"
  "\<exists>r. not_containing y = Inr r \<and> from_registry r"
  "\<exists>r. not_contained_in y = Inr r \<and> from_registry r"
proof -
  have neg: "\<exists>r. comb_neg p = Inr r \<and> from_registry r" if "from_registry p" for p
  proof -
    from from_registry_attr_safe [OF that] obtain f where "p = Combinable f"
      by (cases p) (simp_all add: attr_safe_def)
    then obtain r where "comb_neg p = Inr r" by simp
    with that show ?thesis by (blast intro: reg_neg)
  qed
  show "\<exists>r. not_equal_to y = Inr r \<and> from_registry r"
    unfolding not_equal_to_def not_of_def by (rule neg [OF reg_equal_to])
  show "\<exists>r. not_strictly_between (y, z) = Inr r \<and> from_registry r"
    unfolding not_strictly_between_def not_of_def by (simp add: neg [OF reg_strictly_between])
  show "\<exists>r. not_between (y, z) = Inr r \<and> from_registry r"
    unfolding not_between_def not_of_def by (simp add: neg [OF reg_between])
  show "\<exists>r. not_between_or_equal_to (y, z) = Inr r \<and> from_registry r"
    unfolding not_between_or_equal_to_def not_of_def by (simp add: neg [OF reg_between_or_equal_to])
  show "\<exists>r. not_containing y = Inr r \<and> from_registry r"
    unfolding not_containing_def not_of_def by (rule neg [OF reg_containing])
  show "\<exists>r. not_contained_in y = Inr r \<and> from_registry r"
    unfolding not_contained_in_def not_of_def by (rule neg [OF reg_contained_in])
qed

section \<open>The properties\<close>

subsection \<open>Near-equality\<close>

text \<open>
  C1. The specification takes a real \<open>x\<close> to be near-equal to \<open>y\<close> when \<open>x == y\<close> or
  when \<open>y\<close> is the binary64 number immediately above or immediately below \<open>x\<close>. The
  code asks \<^verbatim>\<open>np.nextafter(x, 1)\<close> and \<^verbatim>\<open>np.nextafter(x, 0)\<close>, the neighbours of
  \<open>x\<close> towards 1 and towards 0; for \<open>x = 2.0\<close> (pattern \<open>0x4000000000000000\<close>, equal
  to the integer 2) both are the number below \<open>x\<close>. So \<^verbatim>\<open>equal_to(y)(x)\<close> is false
  for \<open>x = 2.0\<close> and \<open>y = 2.0000000000000004\<close> (pattern \<open>0x4000000000000001\<close>),
  although \<open>y\<close> is the number immediately above \<open>x\<close>: it is \<open>next_up x\<close>, one
  position further in the order.
\<close>

theorem equal_to_misses_upper_neighbour:
  "call (equal_to (PFloat 0x4000000000000001)) (PFloat 0x4000000000000000) = Inr False
   \<and> next_up 0x4000000000000000 = 0x4000000000000001
   \<and> ford 0x4000000000000001 = ford 0x4000000000000000 + 1
   \<and> py_eq (PFloat 0x4000000000000000) (PInt 2) = Inr True"
  by (simp add: equal_to_def equal_or_float_equal_def py_or_def py_eq_def cmp_float_def is_nan_def
     fmag_def inf_mag_def ford_def fsign_def cmp_int_def np_nextafter_def bind_err_def
     float_of_int_1 float_of_int_0 nextafter_def next_up_def is_inf_def cmp_int_float_def fscaled_def)

text \<open>
  C2. The specification has \<^verbatim>\<open>above_or_equal_to(y)(x)\<close> true for a floating-point \<open>x\<close>
  one unit in the last place below \<open>y\<close>. For \<open>y = 38.0\<close> (pattern
  \<open>0x4043000000000000\<close>, equal to the integer 38) and \<open>x = 37.99999999999999\<close> (pattern
  \<open>0x4042FFFFFFFFFFFF\<close>, the number immediately below \<open>y\<close>) the code returns false:
  \<open>x >= y\<close> is false, and both neighbours the near-equality policy computes for \<open>x\<close>
  lie below \<open>x\<close>.
\<close>

theorem above_or_equal_to_misses_one_ulp_below:
  "call (above_or_equal_to (PFloat 0x4043000000000000)) (PFloat 0x4042FFFFFFFFFFFF) = Inr False
   \<and> next_up 0x4042FFFFFFFFFFFF = 0x4043000000000000
   \<and> ford 0x4043000000000000 = ford 0x4042FFFFFFFFFFFF + 1
   \<and> py_eq (PFloat 0x4043000000000000) (PInt 38) = Inr True"
  by (simp add: above_or_equal_to_def equal_or_float_equal_def py_or_def py_eq_def py_ge_def cmp_float_def is_nan_def
     fmag_def inf_mag_def ford_def fsign_def cmp_int_def np_nextafter_def bind_err_def
     float_of_int_1 float_of_int_0 nextafter_def next_up_def is_inf_def cmp_int_float_def fscaled_def)

text \<open>What holds of the two predicates for all operands: the comparison or the
  near-equality policy decides, the policy being consulted when the comparison is false.\<close>

lemma above_or_equal_to_iff:
  "call (above_or_equal_to y) x = Inr True \<longleftrightarrow>
     py_ge x y = Inr True \<or> (py_ge x y = Inr False \<and> equal_or_float_equal x y = Inr True)"
  by (cases "py_ge x y") (auto simp add: above_or_equal_to_def py_or_def)

lemma below_or_equal_to_iff:
  "call (below_or_equal_to y) x = Inr True \<longleftrightarrow>
     py_le x y = Inr True \<or> (py_le x y = Inr False \<and> equal_or_float_equal x y = Inr True)"
  by (cases "py_le x y") (auto simp add: below_or_equal_to_def py_or_def)

subsection \<open>Membership\<close>

text \<open>
  C3, as the code has it. On the column \<^verbatim>\<open>['S', 'M', 'L', 'XL']\<close>, \<^verbatim>\<open>containing('L')\<close>
  is true exactly of \<^verbatim>\<open>'L'\<close> and \<^verbatim>\<open>'XL'\<close>; \<^verbatim>\<open>contained_in('MXL')\<close> is true exactly of
  \<^verbatim>\<open>'M'\<close>, \<^verbatim>\<open>'L'\<close> and \<^verbatim>\<open>'XL'\<close> (each is a substring of \<^verbatim>\<open>'MXL'\<close>); and
  \<^verbatim>\<open>not_contained_in('MXL')\<close> is true exactly of \<^verbatim>\<open>'S'\<close>. The lists give the outcome
  for each value of the column, in order.
\<close>

theorem sizes_membership:
  "map (call (containing (PStr ''L''))) sizes = [Inr False, Inr False, Inr True, Inr True]
   \<and> map (call (contained_in (PStr ''MXL''))) sizes = [Inr False, Inr True, Inr True, Inr True]
   \<and> map (invoke (not_contained_in (PStr ''MXL''))) sizes
         = [Inr True, Inr False, Inr False, Inr False]"
  by (simp add: sizes_def containing_def contained_in_def not_contained_in_def not_of_def
        invoke_Inr py_not_def sublist_code)

text \<open>\<^verbatim>\<open>'L'\<close> is a substring of \<^verbatim>\<open>'MXL'\<close>: \<^verbatim>\<open>contained_in('MXL')\<close> selects it and
  \<^verbatim>\<open>not_contained_in('MXL')\<close> does not, as the docstring of \<^verbatim>\<open>are\<close> shows too.\<close>

theorem contained_in_MXL_selects_L:
  "call (contained_in (PStr ''MXL'')) (PStr ''L'') = Inr True
   \<and> invoke (not_contained_in (PStr ''MXL'')) (PStr ''L'') = Inr False"
  by (simp add: contained_in_def not_contained_in_def not_of_def invoke_Inr py_not_def sublist_code)

text \<open>
  C10. The empty string is a substring of every string: \<^verbatim>\<open>containing('')\<close> is true of
  every string, and \<^verbatim>\<open>contained_in(s)\<close> is true of the empty string for every string
  \<open>s\<close>.
\<close>

theorem empty_string_membership:
  "call (containing (PStr '''')) (PStr x) = Inr True
   \<and> call (contained_in (PStr s)) (PStr '''') = Inr True"
  by (simp add: containing_def contained_in_def)

subsection \<open>The algebra of the wrapper\<close>

lemma xor_call: "invoke (comb_xor (Combinable f) (Combinable g)) x = py_ne_bool (f x) (g x)"
  by (cases "f x"; cases "g x")
     (auto simp add: invoke_def bind_err_def py_and_def py_or_def py_not_def py_ne_bool_def)

lemma xor_composed:
  "comb_xor p q =
     bind_err (comb_neg q) (\<lambda>nq. bind_err (comb_and p nq) (\<lambda>l.
     bind_err (comb_neg p) (\<lambda>np. bind_err (comb_and np q) (\<lambda>r. comb_or l r))))"
  by (cases p; cases q) (simp_all add: bind_err_def)

text \<open>
  C4. For wrappers \<open>p\<close> and \<open>q\<close> of the functions \<open>f\<close> and \<open>g\<close> and every value
  \<open>x\<close>: \<open>(p & q)(x)\<close> is \<open>p(x) and q(x)\<close>, \<open>(p | q)(x)\<close> is \<open>p(x) or q(x)\<close>,
  \<open>(-p)(x)\<close> is \<open>not p(x)\<close> and \<open>(p ^ q)(x)\<close> is \<open>p(x) != q(x)\<close>, exceptions
  included; where both \<open>p(x)\<close> and \<open>q(x)\<close> return booleans, the results are their
  conjunction, disjunction, negation and difference. The xor is the composition
  \<open>(p & -q) | (-p & q)\<close> of the other three operators.
\<close>

theorem combinable_algebra:
  "invoke (comb_and (Combinable f) (Combinable g)) x = py_and (f x) (g x)
   \<and> invoke (comb_or (Combinable f) (Combinable g)) x = py_or (f x) (g x)
   \<and> invoke (comb_neg (Combinable f)) x = py_not (f x)
   \<and> invoke (comb_xor (Combinable f) (Combinable g)) x = py_ne_bool (f x) (g x)
   \<and> (\<forall>a b. f x = Inr a \<longrightarrow> g x = Inr b \<longrightarrow>
          invoke (comb_and (Combinable f) (Combinable g)) x = Inr (a \<and> b)
        \<and> invoke (comb_or (Combinable f) (Combinable g)) x = Inr (a \<or> b)
        \<and> invoke (comb_neg (Combinable f)) x = Inr (\<not> a)
        \<and> invoke (comb_xor (Combinable f) (Combinable g)) x = Inr (a \<noteq> b))
   \<and> comb_xor p q =
        bind_err (comb_neg q) (\<lambda>nq. bind_err (comb_and p nq) (\<lambda>l.
        bind_err (comb_neg p) (\<lambda>np. bind_err (comb_and np q) (\<lambda>r. comb_or l r))))"
proof -
  have "invoke (comb_and (Combinable f) (Combinable g)) x = py_and (f x) (g x)"
    and "invoke (comb_or (Combinable f) (Combinable g)) x = py_or (f x) (g x)"
    and "invoke (comb_neg (Combinable f)) x = py_not (f x)"
    by (simp_all add: invoke_def bind_err_def)
  moreover note xor_call [of f g x]
  moreover have "py_and (Inr a) (Inr b) = Inr (a \<and> b)" "py_or (Inr a) (Inr b) = Inr (a \<or> b)"
    "py_not (Inr a) = Inr (\<not> a)" "py_ne_bool (Inr a) (Inr b) = Inr (a \<noteq> b)" for a b
    by (simp_all add: py_and_def py_or_def py_not_def py_ne_bool_def bind_err_def)
  moreover note xor_composed [of p q]
  ultimately show ?thesis by simp
qed

theorem combinable_algebra_witness:
  "invoke (comb_and (above (PInt 30)) (below (PInt 38))) (PInt 34) = Inr True
   \<and> invoke (comb_or (above (PInt 30)) (below (PInt 38))) (PInt 34) = Inr True
   \<and> invoke (comb_neg (above (PInt 30))) (PInt 34) = Inr False
   \<and> invoke (comb_xor (above (PInt 30)) (below (PInt 38))) (PInt 34) = Inr False"
proof -
  have a: "py_gt (PInt 34) (PInt 30) = Inr True" and b: "py_lt (PInt 34) (PInt 38) = Inr True"
    by (simp_all add: py_gt_def py_lt_def cmp_int_def)
  note th = combinable_algebra [of "\<lambda>x. py_gt x (PInt 30)" "\<lambda>x. py_lt x (PInt 38)" "PInt 34"
      "above (PInt 30)" "below (PInt 38)", folded above_def below_def]
  from th [THEN conjunct2, THEN conjunct2, THEN conjunct2, THEN conjunct2, THEN conjunct1,
      rule_format, OF a b]
  show ?thesis by simp
qed

text \<open>
  C6. Conjunction and disjunction short-circuit. Whatever the right operand \<open>q\<close> is, and
  so also when invoking \<open>q\<close> raises, \<open>(p & q)(x)\<close> is false (it does not raise) when
  \<open>p(x)\<close> is false, and \<open>(p | q)(x)\<close> is true when \<open>p(x)\<close> is true.
\<close>

theorem short_circuit:
  "(f x = Inr False \<longrightarrow> invoke (comb_and (Combinable f) q) x = Inr False)
   \<and> (f x = Inr True \<longrightarrow> invoke (comb_or (Combinable f) q) x = Inr True)"
  by (simp add: invoke_def bind_err_def py_and_def py_or_def)

text \<open>\<^verbatim>\<open>are.above('a')\<close> raises on the number 30; behind a false \<^verbatim>\<open>are.above(38)\<close>
  or a true \<^verbatim>\<open>are.below(38)\<close> it is never reached.\<close>

theorem short_circuit_witness:
  "call (above (PStr ''a'')) (PInt 30) = Inl TypeError
   \<and> invoke (comb_and (above (PInt 38)) (above (PStr ''a''))) (PInt 30) = Inr False
   \<and> invoke (comb_or (below (PInt 38)) (above (PStr ''a''))) (PInt 30) = Inr True"
proof -
  have a: "py_gt (PInt 30) (PInt 38) = Inr False" and b: "py_lt (PInt 30) (PInt 38) = Inr True"
    by (simp_all add: py_gt_def py_lt_def cmp_int_def)
  have c: "call (above (PStr ''a'')) (PInt 30) = Inl TypeError"
    by (simp add: above_def py_gt_def)
  from short_circuit [of "\<lambda>x. py_gt x (PInt 38)" "PInt 30" "above (PStr ''a'')"] a
  have "invoke (comb_and (above (PInt 38)) (above (PStr ''a''))) (PInt 30) = Inr False"
    by (simp add: above_def)
  moreover
  from short_circuit [of "\<lambda>x. py_lt x (PInt 38)" "PInt 30" "above (PStr ''a'')"] b
  have "invoke (comb_or (below (PInt 38)) (above (PStr ''a''))) (PInt 30) = Inr True"
    by (simp add: below_def)
  ultimately show ?thesis using c by simp
qed

text \<open>
  C9, as the code has it. With a bare function as the right operand, \<open>p & q\<close> and
  \<open>p | q\<close> are built without complaint; invoking them fails on the missing attribute
  exactly when the left operand does not decide the result (\<open>p(x)\<close> true for \<open>&\<close>,
  false for \<open>|\<close>) and returns the left result otherwise. \<open>p ^ q\<close> fails when it is
  built, on the negation of the bare function. A predicate obtained from the registry
  or from combining such predicates never fails on a missing attribute.
\<close>

theorem bare_right_operand:
  "invoke (comb_and (Combinable f) (Bare g)) x =
      (case f x of Inl e \<Rightarrow> Inl e | Inr v \<Rightarrow> if v then Inl AttributeError else Inr False)
   \<and> invoke (comb_or (Combinable f) (Bare g)) x =
      (case f x of Inl e \<Rightarrow> Inl e | Inr v \<Rightarrow> if v then Inr True else Inl AttributeError)
   \<and> comb_xor (Combinable f) (Bare g) = Inl TypeError
   \<and> (from_registry p \<longrightarrow> call p x \<noteq> Inl AttributeError)
   \<and> (from_registry p \<longrightarrow> from_registry q \<longrightarrow>
        (\<exists>r. comb_and p q = Inr r \<and> from_registry r \<and> call r x \<noteq> Inl AttributeError)
      \<and> (\<exists>r. comb_or p q = Inr r \<and> from_registry r \<and> call r x \<noteq> Inl AttributeError)
      \<and> (\<exists>r. comb_xor p q = Inr r \<and> from_registry r \<and> call r x \<noteq> Inl AttributeError))"
proof -
  have safe: "call p x \<noteq> Inl AttributeError" if "from_registry p" for p
    using from_registry_attr_safe [OF that] by (cases p) (simp_all add: attr_safe_def)
  have comb: "(\<exists>r. comb_and p q = Inr r \<and> from_registry r \<and> call r x \<noteq> Inl AttributeError)
      \<and> (\<exists>r. comb_or p q = Inr r \<and> from_registry r \<and> call r x \<noteq> Inl AttributeError)
      \<and> (\<exists>r. comb_xor p q = Inr r \<and> from_registry r \<and> call r x \<noteq> Inl AttributeError)"
    if p: "from_registry p" and q: "from_registry q"
  proof -
    from from_registry_attr_safe [OF p] obtain f' where f': "p = Combinable f'"
      by (cases p) (simp_all add: attr_safe_def)
    from from_registry_attr_safe [OF q] obtain g' where g': "q = Combinable g'"
      by (cases q) (simp_all add: attr_safe_def)
    obtain r1 where r1: "comb_and p q = Inr r1" by (simp add: f')
    obtain r2 where r2: "comb_or p q = Inr r2" by (simp add: f')
    obtain r3 where r3: "comb_xor p q = Inr r3" by (simp add: f' g' bind_err_def)
    have "from_registry r1" "from_registry r2" "from_registry r3"
      using p q r1 r2 r3 by (blast intro: reg_and reg_or reg_xor)+
    with r1 r2 r3 show ?thesis using safe by blast
  qed
  have bare: "invoke (comb_and (Combinable f) (Bare g)) x =
      (case f x of Inl e \<Rightarrow> Inl e | Inr v \<Rightarrow> if v then Inl AttributeError else Inr False)"
    "invoke (comb_or (Combinable f) (Bare g)) x =
      (case f x of Inl e \<Rightarrow> Inl e | Inr v \<Rightarrow> if v then Inr True else Inl AttributeError)"
    "comb_xor (Combinable f) (Bare g) = Inl TypeError"
    by (simp_all add: invoke_def bind_err_def py_and_def py_or_def)
  from bare safe [of p] comb show ?thesis by blast
qed

text \<open>
  \<^verbatim>\<open>are.above(38)\<close> and \<^verbatim>\<open>are.containing('L')\<close> come from the registry. Their xor is
  built and, invoked on the number 40, does not fail on a missing attribute; the
  conjunction of \<^verbatim>\<open>are.above(38)\<close> with a bare function does, since 40 is above 38.
\<close>

theorem bare_right_operand_witness:
  "from_registry (above (PInt 38)) \<and> from_registry (containing (PStr ''L''))
   \<and> call (above (PInt 38)) (PInt 40) \<noteq> Inl AttributeError
   \<and> (\<exists>r. comb_xor (above (PInt 38)) (containing (PStr ''L'')) = Inr r \<and> from_registry r
          \<and> call r (PInt 40) \<noteq> Inl AttributeError)
   \<and> invoke (comb_and (above (PInt 38)) (Bare (\<lambda>x. Inr True))) (PInt 40) = Inl AttributeError"
proof -
  note th = bare_right_operand [of "\<lambda>x. py_gt x (PInt 38)" "\<lambda>x. Inr True" "PInt 40"
      "above (PInt 38)" "containing (PStr ''L'')", folded above_def]
  have p: "from_registry (above (PInt 38))" by (rule reg_above)
  have q: "from_registry (containing (PStr ''L''))" by (rule reg_containing)
  have gt: "py_gt (PInt 40) (PInt 38) = Inr True"
    by (simp add: py_gt_def cmp_int_def)
  from th p have "call (above (PInt 38)) (PInt 40) \<noteq> Inl AttributeError" by blast
  moreover from th p q
  have "\<exists>r. comb_xor (above (PInt 38)) (containing (PStr ''L'')) = Inr r \<and> from_registry r
          \<and> call r (PInt 40) \<noteq> Inl AttributeError" by blast
  moreover from th [THEN conjunct1]
  have "invoke (comb_and (above (PInt 38)) (Bare (\<lambda>x. Inr True))) (PInt 40) = Inl AttributeError"
    by (simp add: gt)
  ultimately show ?thesis using p q by blast
qed

text \<open>Not every invocation of \<open>p & q\<close> with a bare \<open>q\<close> fails: with \<^verbatim>\<open>are.above(38)\<close>
  as \<open>p\<close> and any bare function as \<open>q\<close>, the conjunction returns false on 30.\<close>

theorem bare_right_operand_not_reached:
  "invoke (comb_and (above (PInt 38)) (Bare (\<lambda>x. Inr True))) (PInt 30) = Inr False"
  by (simp add: above_def invoke_def bind_err_def py_and_def py_gt_def cmp_int_def)

subsection \<open>Aliases\<close>

text \<open>
  C5. \<^verbatim>\<open>not_above\<close> is \<^verbatim>\<open>below_or_equal_to\<close> itself, \<^verbatim>\<open>not_below\<close> is
  \<^verbatim>\<open>above_or_equal_to\<close>, \<^verbatim>\<open>not_below_or_equal_to\<close> is \<^verbatim>\<open>above\<close> and
  \<^verbatim>\<open>not_above_or_equal_to\<close> is \<^verbatim>\<open>below\<close>; so for every \<open>y\<close> and \<open>x\<close> the predicate
  built under the negated name and the one built under its target return the same.
\<close>

theorem negated_aliases:
  "not_above = below_or_equal_to \<and> not_below = above_or_equal_to
   \<and> not_below_or_equal_to = above \<and> not_above_or_equal_to = below
   \<and> call (not_above y) x = call (below_or_equal_to y) x
   \<and> call (not_below y) x = call (above_or_equal_to y) x
   \<and> call (not_below_or_equal_to y) x = call (above y) x
   \<and> call (not_above_or_equal_to y) x = call (below y) x"
  by (simp add: not_above_def not_below_def not_below_or_equal_to_def not_above_or_equal_to_def)

subsection \<open>Ranges\<close>



text \<open>Without the assumption, an exception of the chained comparison propagates: the
  predicate is true iff the chain is true, or the chain is false and the policy is
  true.\<close>

lemma between_iff_general:
  "call (between y z) x = Inr True \<longleftrightarrow>
     py_and (py_le y x) (py_lt x z) = Inr True
     \<or> (py_and (py_le y x) (py_lt x z) = Inr False \<and> equal_or_float_equal x y = Inr True)"
  by (cases "py_and (py_le y x) (py_lt x z)") (auto simp add: between_def py_or_def)

text \<open>
  C8. \<^verbatim>\<open>strictly_between(y, z)(x)\<close> is true iff \<open>y < x\<close> and \<open>x < z\<close> are both true;
  near-equality plays no part. At \<open>x == y\<close> it is false, and at \<open>x == z\<close> it is never
  true (it is false when \<open>y\<close> and \<open>x\<close> are comparable).
\<close>

theorem strictly_between_exclusive:
  "(call (strictly_between y z) x = Inr True \<longleftrightarrow> py_lt y x = Inr True \<and> py_lt x z = Inr True)
   \<and> (py_eq x y = Inr True \<longrightarrow> call (strictly_between y z) x = Inr False)
   \<and> (py_eq x z = Inr True \<longrightarrow> call (strictly_between y z) x \<noteq> Inr True)
   \<and> (py_eq x z = Inr True \<longrightarrow> comparable y x \<longrightarrow> call (strictly_between y z) x = Inr False)"
proof -
  have iff: "call (strictly_between y z) x = Inr True \<longleftrightarrow> py_lt y x = Inr True \<and> py_lt x z = Inr True"
    by (cases "py_lt y x") (auto simp add: strictly_between_def py_and_def)
  have lo: "call (strictly_between y z) x = Inr False" if "py_eq x y = Inr True"
  proof -
    from that have "py_compare y x = Some Eq"
      by (simp add: py_eq_True py_compare_Eq_sym)
    then show ?thesis
      by (simp add: strictly_between_def py_and_def py_lt_def)
  qed
  have hi: "py_lt x z = Inr False" if "py_eq x z = Inr True"
    using that by (simp add: py_eq_True py_lt_def)
  have hi1: "call (strictly_between y z) x \<noteq> Inr True" if "py_eq x z = Inr True"
    using hi [OF that] iff by simp
  have hi2: "call (strictly_between y z) x = Inr False" if "py_eq x z = Inr True" "comparable y x"
    using hi [OF that(1)] that(2)
    by (auto simp add: strictly_between_def py_and_def py_lt_def comparable_def split: option.splits)
  from iff lo hi1 hi2 show ?thesis by blast
qed

theorem strictly_between_exclusive_witness:
  "call (strictly_between (PInt 30) (PInt 38)) (PInt 34) = Inr True
   \<and> call (strictly_between (PInt 30) (PInt 38)) (PInt 30) = Inr False
   \<and> call (strictly_between (PInt 30) (PInt 38)) (PInt 38) = Inr False"
proof -
  have l: "py_lt (PInt 30) (PInt 34) = Inr True" "py_lt (PInt 34) (PInt 38) = Inr True"
    by (simp_all add: py_lt_def cmp_int_def)
  have e: "py_eq (PInt 30) (PInt 30) = Inr True" "py_eq (PInt 38) (PInt 38) = Inr True"
    by (simp_all add: py_eq_def cmp_int_def)
  have c: "comparable (PInt 30) (PInt 38)"
    by (simp add: comparable_def)
  from strictly_between_exclusive [of "PInt 30" "PInt 38" "PInt 34"] l
  have "call (strictly_between (PInt 30) (PInt 38)) (PInt 34) = Inr True" by blast
  moreover
  from strictly_between_exclusive [of "PInt 30" "PInt 38" "PInt 30"] e(1)
  have "call (strictly_between (PInt 30) (PInt 38)) (PInt 30) = Inr False" by blast
  moreover
  from strictly_between_exclusive [of "PInt 30" "PInt 38" "PInt 38"] e(2) c
  have "call (strictly_between (PInt 30) (PInt 38)) (PInt 38) = Inr False" by blast
  ultimately show ?thesis by simp
qed

end
